theory Spec2Isabelle
  imports Complex_Main "HOL-Library.AList"
begin

section \<open>Python values and exceptions\<close>

text \<open>
  Exceptions are values. Only the class of an exception is modelled; the text that
  Python's \<open>str(e)\<close> gives for it belongs to the interpreter and the libraries and is a
  parameter of the model (\<open>str_exn\<close> below).
\<close>

datatype exn =
    TypeError
  | KeyError
  | IndexError
  | AttributeError
  | JSONDecodeError
  | UnicodeDecodeError
  | RequestException

text \<open>
  \<open>xs[i:]\<close> of Python: a negative start counts from the end and is clamped at the
  beginning of the list, a start beyond the end gives the empty list. In particular
  \<open>xs[-0:]\<close> is \<open>xs[0:]\<close>, the whole list.
\<close>

definition slice_from :: "int \<Rightarrow> 'a list \<Rightarrow> 'a list" where
  "slice_from i xs =
     (if i < 0 then drop (nat (int (length xs) + i)) xs else drop (nat i) xs)"

section \<open>conversation.py: the conversation manager\<close>

text \<open>
  A message is the dict \<open>{"role": ..., "content": ...}\<close>. Python lists hold references
  to dict objects, and \<open>set_system_message\<close> updates a dict in place, so the history is
  a list of references into a store of message objects; \<open>next_ref\<close> is the next unused
  reference.
\<close>

record message =
  role :: string
  content :: string

type_synonym ref = nat

record conversation =
  max_history :: int
  messages :: "ref list"
  heap :: "ref \<Rightarrow> message"
  next_ref :: ref

text \<open>The history as a reader of \<open>self.messages\<close> sees it.\<close>

definition history :: "conversation \<Rightarrow> message list" where
  "history s = map (heap s) (messages s)"

text \<open>Every reference of the history has been allocated.\<close>

definition allocated :: "conversation \<Rightarrow> bool" where
  "allocated s = list_all (\<lambda>a. a < next_ref s) (messages s)"

text \<open>\<open>Conversation.__init__\<close>; the model is passed to \<open>send_message\<close> instead of stored.\<close>

definition init :: "int \<Rightarrow> conversation" where
  "init mh = \<lparr>max_history = mh, messages = [], heap = (\<lambda>_. \<lparr>role = [], content = []\<rparr>),
     next_ref = 0\<rparr>"

definition add_message :: "string \<Rightarrow> string \<Rightarrow> conversation \<Rightarrow> conversation" where
  "add_message r c s =
     (let a = next_ref s;
          h = (heap s)(a := \<lparr>role = r, content = c\<rparr>);
          ms = messages s @ [a]
      in if int (length ms) > max_history s then
           (if ms \<noteq> [] \<and> role (h (hd ms)) = ''system''
            then s\<lparr>messages := [hd ms] @ slice_from (- (max_history s - 1)) ms,
                   heap := h, next_ref := Suc a\<rparr>
            else s\<lparr>messages := slice_from (- max_history s) ms,
                   heap := h, next_ref := Suc a\<rparr>)
         else s\<lparr>messages := ms, heap := h, next_ref := Suc a\<rparr>)"

definition clear_history :: "conversation \<Rightarrow> conversation" where
  "clear_history s =
     (if messages s \<noteq> [] \<and> role (heap s (hd (messages s))) = ''system''
      then s\<lparr>messages := [hd (messages s)]\<rparr>
      else s\<lparr>messages := []\<rparr>)"

definition set_system_message :: "string \<Rightarrow> conversation \<Rightarrow> conversation" where
  "set_system_message c s =
     (if messages s \<noteq> [] \<and> role (heap s (hd (messages s))) = ''system''
      then s\<lparr>heap := (heap s)(hd (messages s) := (heap s (hd (messages s)))\<lparr>content := c\<rparr>)\<rparr>
      else s\<lparr>messages := next_ref s # messages s,
             heap := (heap s)(next_ref s := \<lparr>role = ''system'', content = c\<rparr>),
             next_ref := Suc (next_ref s)\<rparr>)"

text \<open>
  The interface \<open>BaseModel.generate\<close> as \<open>send_message\<close> uses it, at its declared
  return types: with \<open>stream=False\<close> a string, with \<open>stream=True\<close> a generator, which
  is the list of the fragments it yields and the exception that ends it early, if any.
  Either call may raise.
\<close>

record base_model =
  generate_text :: "message list \<Rightarrow> exn + string"
  generate_stream :: "message list \<Rightarrow> exn + (string list \<times> exn option)"

text \<open>
  \<open>send_message\<close> returns the conversation, what it wrote to \<open>sys.stdout\<close> (one entry
  per write), and its result: the exception that escaped, or the returned value
  (\<open>None\<close> in streaming mode).
\<close>

definition send_message ::
  "base_model \<Rightarrow> string \<Rightarrow> bool \<Rightarrow> conversation
     \<Rightarrow> conversation \<times> string list \<times> (exn + string option)" where
  "send_message m msg stream s =
     (let s1 = add_message ''user'' msg s in
      if stream then
        (case generate_stream m (history s1) of
           Inl e \<Rightarrow> (s1, [], Inl e)
         | Inr (chunks, Some e) \<Rightarrow> (s1, chunks, Inl e)
         | Inr (chunks, None) \<Rightarrow>
             (add_message ''assistant'' (concat chunks) s1, chunks, Inr None))
      else
        (case generate_text m (history s1) of
           Inl e \<Rightarrow> (s1, [], Inl e)
         | Inr response_text \<Rightarrow>
             (add_message ''assistant'' response_text s1, [], Inr (Some response_text))))"

section \<open>models.py: the provider adapters\<close>

subsection \<open>JSON values and the Python operations on them\<close>

text \<open>
  What \<open>json.loads\<close> returns: \<open>None\<close>, \<open>bool\<close>, \<open>int\<close>, \<open>float\<close>, \<open>str\<close>, \<open>list\<close> and
  \<open>dict\<close> with string keys (an association list read with \<open>map_of\<close>). The non-finite
  floats that \<open>json.loads\<close> also accepts behave like a nonzero \<open>JFloat\<close> under every
  operation below. A Python \<open>str\<close> is represented by its UTF-8 bytes.
\<close>

datatype json =
    JNull
  | JBool bool
  | JInt int
  | JFloat rat
  | JStr string
  | JArr "json list"
  | JObj "(string \<times> json) list"

text \<open>
  The library functions the adapters call are parameters: \<open>bytes.decode('utf-8')\<close>,
  \<open>json.loads\<close>, \<open>str(e)\<close> of an exception, \<open>str.upper\<close> and \<open>str.lower\<close>.
\<close>

record runtime =
  decode_utf8 :: "string \<Rightarrow> exn + string"
  json_loads :: "string \<Rightarrow> exn + json"
  str_exn :: "exn \<Rightarrow> string"
  str_upper :: "string \<Rightarrow> string"
  str_lower :: "string \<Rightarrow> string"

text \<open>Truth value of an object, as \<open>if x:\<close> tests it.\<close>

fun truthy :: "json \<Rightarrow> bool" where
  "truthy JNull = False"
| "truthy (JBool b) = b"
| "truthy (JInt i) = (i \<noteq> 0)"
| "truthy (JFloat q) = (q \<noteq> 0)"
| "truthy (JStr s) = (s \<noteq> [])"
| "truthy (JArr xs) = (xs \<noteq> [])"
| "truthy (JObj kvs) = (kvs \<noteq> [])"

text \<open>\<open>k in s\<close> for two strings: \<open>k\<close> occurs in \<open>s\<close> as a contiguous piece.\<close>

fun is_infix :: "string \<Rightarrow> string \<Rightarrow> bool" where
  "is_infix k [] = (k = [])"
| "is_infix k (c # cs) = (take (length k) (c # cs) = k \<or> is_infix k cs)"

text \<open>\<open>k in v\<close> for a string \<open>k\<close>: a key of a dict, an element of a list, a piece of a
  string; any other object is not iterable.\<close>

fun py_in :: "string \<Rightarrow> json \<Rightarrow> exn + bool" where
  "py_in k (JObj kvs) = Inr (map_of kvs k \<noteq> None)"
| "py_in k (JArr xs) = Inr (List.member xs (JStr k))"
| "py_in k (JStr s) = Inr (is_infix k s)"
| "py_in k _ = Inl TypeError"

text \<open>\<open>v[k]\<close> for a string \<open>k\<close>.\<close>

fun py_getitem :: "json \<Rightarrow> string \<Rightarrow> exn + json" where
  "py_getitem (JObj kvs) k = (case map_of kvs k of None \<Rightarrow> Inl KeyError | Some x \<Rightarrow> Inr x)"
| "py_getitem _ k = Inl TypeError"

text \<open>The first character of a string in UTF-8: the leading byte tells its length.\<close>

fun first_char :: "string \<Rightarrow> string" where
  "first_char [] = []"
| "first_char (c # cs) =
     (let b = (of_char c :: nat) in
      if b < 0xC0 then [c] else if b < 0xE0 then c # take 1 cs
      else if b < 0xF0 then c # take 2 cs else c # take 3 cs)"

text \<open>\<open>v[0]\<close>. The keys of a dict from JSON are strings, so \<open>0\<close> is never one of them.\<close>

fun py_getitem0 :: "json \<Rightarrow> exn + json" where
  "py_getitem0 (JArr []) = Inl IndexError"
| "py_getitem0 (JArr (x # xs)) = Inr x"
| "py_getitem0 (JStr []) = Inl IndexError"
| "py_getitem0 (JStr (c # cs)) = Inr (JStr (first_char (c # cs)))"
| "py_getitem0 (JObj kvs) = Inl KeyError"
| "py_getitem0 _ = Inl TypeError"

text \<open>\<open>len(v) > 0\<close>.\<close>

fun py_len_pos :: "json \<Rightarrow> exn + bool" where
  "py_len_pos (JArr xs) = Inr (xs \<noteq> [])"
| "py_len_pos (JStr s) = Inr (s \<noteq> [])"
| "py_len_pos (JObj kvs) = Inr (kvs \<noteq> [])"
| "py_len_pos _ = Inl TypeError"

text \<open>\<open>v.get(k, d)\<close>: only a dict has the method.\<close>

fun py_get :: "json \<Rightarrow> string \<Rightarrow> json \<Rightarrow> exn + json" where
  "py_get (JObj kvs) k d = Inr (case map_of kvs k of None \<Rightarrow> d | Some x \<Rightarrow> x)"
| "py_get _ k d = Inl AttributeError"

text \<open>Decimal notation, for \<open>response.status_code\<close> in an f-string.\<close>

fun str_nat :: "nat \<Rightarrow> string" where
  "str_nat n =
     (if n < 10 then [''0123456789'' ! n]
      else str_nat (n div 10) @ [''0123456789'' ! (n mod 10)])"

declare str_nat.simps [simp del]

definition str_int :: "int \<Rightarrow> string" where
  "str_int i = (if i < 0 then CHR ''-'' # str_nat (nat (- i)) else str_nat (nat i))"

subsection \<open>HTTP\<close>

text \<open>
  \<open>requests.post\<close> is a parameter: it maps the request to the exception it raises or to
  the response. A response has its status, its body as text (\<open>response.text\<close>), the
  lines \<open>response.iter_lines()\<close> delivers (as bytes) and the exception that
  \<open>iter_lines\<close> raises after them when the connection breaks. \<open>response.json()\<close> is
  \<open>json_loads\<close> of the body.
\<close>

record request =
  url :: string
  headers :: "(string \<times> string) list"
  body :: json
  stream_response :: bool
  proxies :: "(string \<times> json) list"

record response =
  status_code :: int
  body_text :: string
  body_lines :: "string list"
  body_error :: "exn option"

type_synonym network = "request \<Rightarrow> exn + response"

subsection \<open>BaseModel\<close>

datatype family = OpenAIModel | DeepSeekModel | QwenModel

text \<open>
  An adapter object: its class and the fields \<open>BaseModel.__init__\<close> sets. A model
  configuration is a dict of strings; the proxy configuration is the JSON object of the
  configuration file.
\<close>

record adapter =
  family :: family
  config :: "(string \<times> string) list"
  api_key :: string
  model_name :: string
  api_base :: string
  proxy_config :: "(string \<times> json) list"

definition dict_get :: "(string \<times> 'a) list \<Rightarrow> string \<Rightarrow> 'a \<Rightarrow> 'a" where
  "dict_get d k dflt = (case map_of d k of None \<Rightarrow> dflt | Some v \<Rightarrow> v)"

definition new_adapter ::
  "family \<Rightarrow> (string \<times> string) list \<Rightarrow> (string \<times> json) list \<Rightarrow> adapter" where
  "new_adapter f cfg pc =
     \<lparr>family = f, config = cfg, api_key = dict_get cfg ''api_key'' [],
      model_name = dict_get cfg ''model'' [], api_base = dict_get cfg ''api_base'' [],
      proxy_config = pc\<rparr>"

definition get_proxies :: "adapter \<Rightarrow> (string \<times> json) list" where
  "get_proxies a =
     (if \<not> truthy (dict_get (proxy_config a) ''enabled'' (JBool False)) then []
      else (case map_of (proxy_config a) ''http'' of
              Some v \<Rightarrow> if truthy v then [(''http'', v)] else []
            | None \<Rightarrow> [])
         @ (case map_of (proxy_config a) ''https'' of
              Some v \<Rightarrow> if truthy v then [(''https'', v)] else []
            | None \<Rightarrow> []))"

text \<open>The messages of the request body and the two headers.\<close>

definition message_json :: "message \<Rightarrow> json" where
  "message_json m = JObj [(''role'', JStr (role m)), (''content'', JStr (content m))]"

definition auth_headers :: "adapter \<Rightarrow> (string \<times> string) list" where
  "auth_headers a =
     [(''Content-Type'', ''application/json''), (''Authorization'', ''Bearer '' @ api_key a)]"

text \<open>The texts of the error replies, in UTF-8.\<close>

definition request_failed :: string where
  "request_failed = ''API'' @ [CHR 0xE8, CHR 0xAF, CHR 0xB7, CHR 0xE6, CHR 0xB1, CHR 0x82,
     CHR 0xE5, CHR 0xA4, CHR 0xB1, CHR 0xE8, CHR 0xB4, CHR 0xA5, CHR 0xEF, CHR 0xBC, CHR 0x9A]"

definition parse_failed :: string where
  "parse_failed = [CHR 0xE8, CHR 0xA7, CHR 0xA3, CHR 0xE6, CHR 0x9E, CHR 0x90, CHR 0xE5,
     CHR 0x93, CHR 0x8D, CHR 0xE5, CHR 0xBA, CHR 0x94, CHR 0xE6, CHR 0x97, CHR 0xB6, CHR 0xE5,
     CHR 0x87, CHR 0xBA, CHR 0xE9, CHR 0x94, CHR 0x99, CHR 0xEF, CHR 0xBC, CHR 0x9A]"

definition qwen_name :: string where
  "qwen_name = [CHR 0xE9, CHR 0x80, CHR 0x9A, CHR 0xE4, CHR 0xB9, CHR 0x89, CHR 0xE5,
     CHR 0x8D, CHR 0x83, CHR 0xE9, CHR 0x97, CHR 0xAE]"

text \<open>\<open>f"API...: {response.status_code} {response.text}"\<close>\<close>

definition status_error_msg :: "response \<Rightarrow> string" where
  "status_error_msg resp =
     request_failed @ str_int (status_code resp) @ '' '' @ body_text resp"

text \<open>
  A generator, once run to its end by a consumer: the values it yields, in order, and
  the exception that leaves it, if one does. The body of a generator function runs
  only when the consumer asks for the first value, so an exception of the body is
  raised in the consumer.
\<close>

type_synonym generator = "json list \<times> exn option"

text \<open>The loop over the lines: what the body does with one line.\<close>

datatype step = Continue | Break | Yield json | Raise exn

fun iterate :: "(string \<Rightarrow> step) \<Rightarrow> string list \<Rightarrow> exn option \<Rightarrow> generator" where
  "iterate f [] err = ([], err)"
| "iterate f (line # rest) err =
     (case f line of
        Continue \<Rightarrow> iterate f rest err
      | Break \<Rightarrow> ([], None)
      | Raise e \<Rightarrow> ([], Some e)
      | Yield v \<Rightarrow> (v # fst (iterate f rest err), snd (iterate f rest err)))"

text \<open>What \<open>generate\<close> hands to its caller.\<close>

datatype reply = Value json | Generator generator

subsection \<open>OpenAIModel (and DeepSeekModel, which inherits everything)\<close>

text \<open>The \<open>try\<close> block of the streaming loop on one payload: the content it yields, if any.\<close>

definition openai_chunk :: "runtime \<Rightarrow> string \<Rightarrow> exn + json option" where
  "openai_chunk rt line =
     (case json_loads rt line of Inl e \<Rightarrow> Inl e | Inr data \<Rightarrow>
      (case py_in ''choices'' data of Inl e \<Rightarrow> Inl e | Inr has_choices \<Rightarrow>
         if \<not> has_choices then Inr None else
      (case py_getitem data ''choices'' of Inl e \<Rightarrow> Inl e | Inr choices \<Rightarrow>
      (case py_len_pos choices of Inl e \<Rightarrow> Inl e | Inr nonempty \<Rightarrow>
         if \<not> nonempty then Inr None else
      (case py_getitem0 choices of Inl e \<Rightarrow> Inl e | Inr choice \<Rightarrow>
      (case py_get choice ''delta'' (JObj []) of Inl e \<Rightarrow> Inl e | Inr delta \<Rightarrow>
      (case py_get delta ''content'' JNull of Inl e \<Rightarrow> Inl e | Inr piece \<Rightarrow>
         Inr (if truthy piece then Some piece else None))))))))"

text \<open>
  One line of the streamed response: empty lines are skipped, the line is decoded, a
  leading \<open>data: \<close> is cut off (\<open>line.startswith('data: ')\<close>, \<open>line[6:]\<close>), the
  payload \<open>[DONE]\<close> leaves the loop. Decoding the line stands before the \<open>try\<close>, so
  its exception leaves the generator; an exception of the \<open>try\<close> block is printed and
  the loop goes on.
\<close>

definition strip_data_prefix :: "string \<Rightarrow> string" where
  "strip_data_prefix text = (if take 6 text = ''data: '' then drop 6 text else text)"

definition openai_line :: "runtime \<Rightarrow> string \<Rightarrow> step" where
  "openai_line rt line =
     (if line = [] then Continue
      else case decode_utf8 rt line of
        Inl e \<Rightarrow> Raise e
      | Inr text \<Rightarrow>
          (let payload = strip_data_prefix text in
           if payload = ''[DONE]'' then Break
           else (case openai_chunk rt payload of
                   Inl e \<Rightarrow> Continue
                 | Inr None \<Rightarrow> Continue
                 | Inr (Some piece) \<Rightarrow> Yield piece)))"

definition openai_stream_generate ::
  "runtime \<Rightarrow> network \<Rightarrow> adapter \<Rightarrow> (string \<times> string) list \<Rightarrow> (string \<times> json) list
     \<Rightarrow> generator" where
  "openai_stream_generate rt net a hdrs data =
     (case net \<lparr>url = api_base a @ ''/chat/completions'', headers = hdrs, body = JObj data,
                stream_response = True, proxies = get_proxies a\<rparr> of
        Inl e \<Rightarrow> ([], Some e)
      | Inr resp \<Rightarrow>
          if status_code resp \<noteq> 200 then ([JStr (status_error_msg resp)], None)
          else iterate (openai_line rt) (body_lines resp) (body_error resp))"

text \<open>The \<open>try\<close> block of the non-streaming reply.\<close>

definition openai_message_content :: "runtime \<Rightarrow> response \<Rightarrow> exn + json" where
  "openai_message_content rt resp =
     (case json_loads rt (body_text resp) of Inl e \<Rightarrow> Inl e | Inr data \<Rightarrow>
      (case py_in ''choices'' data of Inl e \<Rightarrow> Inl e | Inr has_choices \<Rightarrow>
         if \<not> has_choices then Inr (JStr []) else
      (case py_getitem data ''choices'' of Inl e \<Rightarrow> Inl e | Inr choices \<Rightarrow>
      (case py_len_pos choices of Inl e \<Rightarrow> Inl e | Inr nonempty \<Rightarrow>
         if \<not> nonempty then Inr (JStr []) else
      (case py_getitem0 choices of Inl e \<Rightarrow> Inl e | Inr choice \<Rightarrow>
      (case py_getitem choice ''message'' of Inl e \<Rightarrow> Inl e | Inr msg \<Rightarrow>
         py_getitem msg ''content''))))))"

definition openai_non_stream_generate ::
  "runtime \<Rightarrow> network \<Rightarrow> adapter \<Rightarrow> (string \<times> string) list \<Rightarrow> (string \<times> json) list
     \<Rightarrow> exn + json" where
  "openai_non_stream_generate rt net a hdrs data =
     (case net \<lparr>url = api_base a @ ''/chat/completions'', headers = hdrs,
                body = JObj (AList.update ''stream'' (JBool False) data),
                stream_response = False, proxies = get_proxies a\<rparr> of
        Inl e \<Rightarrow> Inl e
      | Inr resp \<Rightarrow>
          if status_code resp \<noteq> 200 then Inr (JStr (status_error_msg resp))
          else (case openai_message_content rt resp of
                  Inl e \<Rightarrow> Inr (JStr (parse_failed @ str_exn rt e))
                | Inr v \<Rightarrow> Inr v))"

text \<open>
  \<open>generate\<close>: in streaming mode the \<open>try\<close> block only creates the generator, whose body
  has not run when the block is left.
\<close>

definition openai_generate ::
  "runtime \<Rightarrow> network \<Rightarrow> adapter \<Rightarrow> message list \<Rightarrow> bool \<Rightarrow> exn + reply" where
  "openai_generate rt net a msgs stream =
     (let hdrs = auth_headers a;
          data = [(''model'', JStr (model_name a)),
                  (''messages'', JArr (map message_json msgs)),
                  (''stream'', JBool stream)];
          attempt =
            (if stream then Inr (Generator (openai_stream_generate rt net a hdrs data))
             else (case openai_non_stream_generate rt net a hdrs data of
                     Inl e \<Rightarrow> Inl e
                   | Inr v \<Rightarrow> Inr (Value v)))
      in case attempt of
           Inr r \<Rightarrow> Inr r
         | Inl e \<Rightarrow>
             (let error_msg = ''OpenAI '' @ request_failed @ str_exn rt e in
              if stream then Inr (Generator ([JStr error_msg], None))
              else Inr (Value (JStr error_msg))))"

subsection \<open>QwenModel\<close>

definition qwen_chunk :: "runtime \<Rightarrow> string \<Rightarrow> exn + json option" where
  "qwen_chunk rt line =
     (case decode_utf8 rt line of Inl e \<Rightarrow> Inl e | Inr text \<Rightarrow>
      (case json_loads rt text of Inl e \<Rightarrow> Inl e | Inr data \<Rightarrow>
      (case py_get data ''output'' (JObj []) of Inl e \<Rightarrow> Inl e | Inr output \<Rightarrow>
      (case py_get output ''text'' (JStr []) of Inl e \<Rightarrow> Inl e | Inr txt \<Rightarrow>
         Inr (if truthy txt then Some txt else None)))))"

definition qwen_line :: "runtime \<Rightarrow> string \<Rightarrow> step" where
  "qwen_line rt line =
     (if line = [] then Continue
      else (case qwen_chunk rt line of
              Inl e \<Rightarrow> Continue
            | Inr None \<Rightarrow> Continue
            | Inr (Some txt) \<Rightarrow> Yield txt))"

definition qwen_url :: "adapter \<Rightarrow> string" where
  "qwen_url a = api_base a @ ''/services/aigc/text-generation/generation''"

definition qwen_stream_generate ::
  "runtime \<Rightarrow> network \<Rightarrow> adapter \<Rightarrow> (string \<times> string) list \<Rightarrow> (string \<times> json) list
     \<Rightarrow> generator" where
  "qwen_stream_generate rt net a hdrs data =
     (case net \<lparr>url = qwen_url a, headers = hdrs, body = JObj data,
                stream_response = True, proxies = get_proxies a\<rparr> of
        Inl e \<Rightarrow> ([], Some e)
      | Inr resp \<Rightarrow>
          if status_code resp \<noteq> 200 then ([JStr (status_error_msg resp)], None)
          else iterate (qwen_line rt) (body_lines resp) (body_error resp))"

definition qwen_output_text :: "runtime \<Rightarrow> response \<Rightarrow> exn + json" where
  "qwen_output_text rt resp =
     (case json_loads rt (body_text resp) of Inl e \<Rightarrow> Inl e | Inr data \<Rightarrow>
      (case py_get data ''output'' (JObj []) of Inl e \<Rightarrow> Inl e | Inr output \<Rightarrow>
         py_get output ''text'' (JStr [])))"

definition qwen_non_stream_generate ::
  "runtime \<Rightarrow> network \<Rightarrow> adapter \<Rightarrow> (string \<times> string) list \<Rightarrow> (string \<times> json) list
     \<Rightarrow> exn + json" where
  "qwen_non_stream_generate rt net a hdrs data =
     (case net \<lparr>url = qwen_url a, headers = hdrs, body = JObj data,
                stream_response = False, proxies = get_proxies a\<rparr> of
        Inl e \<Rightarrow> Inl e
      | Inr resp \<Rightarrow>
          if status_code resp \<noteq> 200 then Inr (JStr (status_error_msg resp))
          else (case qwen_output_text rt resp of
                  Inl e \<Rightarrow> Inr (JStr (parse_failed @ str_exn rt e))
                | Inr v \<Rightarrow> Inr v))"

definition qwen_generate ::
  "runtime \<Rightarrow> network \<Rightarrow> adapter \<Rightarrow> message list \<Rightarrow> bool \<Rightarrow> exn + reply" where
  "qwen_generate rt net a msgs stream =
     (let hdrs = auth_headers a;
          data = [(''model'', JStr (model_name a)),
                  (''input'', JObj [(''messages'', JArr (map message_json msgs))]),
                  (''parameters'', JObj [(''stream'', JBool stream)])];
          attempt =
            (if stream then Inr (Generator (qwen_stream_generate rt net a hdrs data))
             else (case qwen_non_stream_generate rt net a hdrs data of
                     Inl e \<Rightarrow> Inl e
                   | Inr v \<Rightarrow> Inr (Value v)))
      in case attempt of
           Inr r \<Rightarrow> Inr r
         | Inl e \<Rightarrow>
             (let error_msg = qwen_name @ request_failed @ str_exn rt e in
              if stream then Inr (Generator ([JStr error_msg], None))
              else Inr (Value (JStr error_msg))))"

text \<open>Method dispatch on the class of the adapter.\<close>

definition generate ::
  "runtime \<Rightarrow> network \<Rightarrow> adapter \<Rightarrow> message list \<Rightarrow> bool \<Rightarrow> exn + reply" where
  "generate rt net a msgs stream =
     (case family a of
        OpenAIModel \<Rightarrow> openai_generate rt net a msgs stream
      | DeepSeekModel \<Rightarrow> openai_generate rt net a msgs stream
      | QwenModel \<Rightarrow> qwen_generate rt net a msgs stream)"

section \<open>config.py and the adapter factory\<close>

text \<open>The dict \<open>Config.config\<close>, with the five keys \<open>_load_config\<close> guarantees.\<close>

record stored_config =
  default_model :: string
  models :: "(string \<times> (string \<times> string) list) list"
  proxy :: "(string \<times> json) list"
  cfg_max_history :: int
  stream_output :: bool

definition get_model_config :: "string \<Rightarrow> stored_config \<Rightarrow> (string \<times> string) list" where
  "get_model_config name cfg = dict_get (models cfg) name []"

text \<open>
  \<open>get_model_instance\<close> returns the configuration as the call leaves it and the adapter
  or \<open>None\<close>. \<open>get_model_config\<close> hands out the stored dict itself, not a copy, so
  the assignment \<open>model_config["api_key"] = api_key\<close> writes into the stored entry (a
  missing entry is a fresh empty dict, and the function returns before any
  assignment). \<open>env\<close> is \<open>os.environ\<close>.
\<close>

definition dispatch ::
  "runtime \<Rightarrow> string \<Rightarrow> (string \<times> string) list \<Rightarrow> (string \<times> json) list
     \<Rightarrow> adapter option" where
  "dispatch rt name model_config pc =
     (if str_lower rt name = ''openai'' then Some (new_adapter OpenAIModel model_config pc)
      else if str_lower rt name = ''deepseek''
        then Some (new_adapter DeepSeekModel model_config pc)
      else if str_lower rt name = ''qwen'' then Some (new_adapter QwenModel model_config pc)
      else None)"

definition get_model_instance ::
  "runtime \<Rightarrow> (string \<Rightarrow> string option) \<Rightarrow> string \<Rightarrow> stored_config
     \<Rightarrow> stored_config \<times> adapter option" where
  "get_model_instance rt env name cfg =
     (let model_config = get_model_config name cfg in
      if model_config = [] then (cfg, None)
      else if dict_get model_config ''api_key'' [] = [] then
        (let env_var_name = str_upper rt name @ ''_API_KEY'' in
         case env env_var_name of
           None \<Rightarrow> (cfg, None)
         | Some k \<Rightarrow>
             if k = [] then (cfg, None)
             else
               (let model_config' = AList.update ''api_key'' k model_config;
                    cfg' = cfg\<lparr>models := AList.update name model_config' (models cfg)\<rparr>
                in (cfg', dispatch rt name model_config' (proxy cfg'))))
      else (cfg, dispatch rt name model_config (proxy cfg)))"

section \<open>Sequences of calls and sample inputs\<close>

text \<open>A sequence of \<open>add_message(role, content)\<close> calls, first call first.\<close>

fun add_messages :: "(string \<times> string) list \<Rightarrow> conversation \<Rightarrow> conversation" where
  "add_messages [] s = s"
| "add_messages ((r, c) # calls) s = add_messages calls (add_message r c s)"

text \<open>A session of at most three messages whose first message is a system message.\<close>

definition pinned_session :: conversation where
  "pinned_session = add_message ''system'' ''Be brief.'' (init 3)"

text \<open>Two turns in a conversation of at most two messages, without a system message.\<close>

definition two_turns :: conversation where
  "two_turns = add_messages [(''user'', ''a''), (''assistant'', ''b'')] (init 2)"

text \<open>The conversation of at most one message after a system and a user message.\<close>

definition aliased_session :: conversation where
  "aliased_session = add_messages [(''system'', ''S''), (''user'', ''hi'')] (init 1)"

text \<open>A model that answers \<open>Hello\<close>, in two fragments when streaming.\<close>

definition hello_model :: base_model where
  "hello_model = \<lparr>generate_text = (\<lambda>msgs. Inr ''Hello''),
     generate_stream = (\<lambda>msgs. Inr ([''Hel'', ''lo''], None))\<rparr>"

text \<open>
  A runtime for the sample inputs: ASCII bytes decode to themselves and other bytes do
  not decode, \<open>upper\<close> and \<open>lower\<close> act on ASCII letters, and \<open>json.loads\<close> is given on
  the payloads the samples use; every other text is not JSON.
\<close>

definition ascii_upper :: "string \<Rightarrow> string" where
  "ascii_upper = map (\<lambda>c. case map_of (zip ''abcdefghijklmnopqrstuvwxyz''
      ''ABCDEFGHIJKLMNOPQRSTUVWXYZ'') c of None \<Rightarrow> c | Some u \<Rightarrow> u)"

definition ascii_lower :: "string \<Rightarrow> string" where
  "ascii_lower = map (\<lambda>c. case map_of (zip ''ABCDEFGHIJKLMNOPQRSTUVWXYZ''
      ''abcdefghijklmnopqrstuvwxyz'') c of None \<Rightarrow> c | Some l \<Rightarrow> l)"

definition delta_json :: "string \<Rightarrow> json" where
  "delta_json s = JObj [(''choices'', JArr [JObj [(''delta'', JObj [(''content'', JStr s)])]])]"

definition sample_loads :: "string \<Rightarrow> exn + json" where
  "sample_loads s =
     (if s = ''{\"choices\":[{\"delta\":{\"content\":\"Hel\"}}]}'' then Inr (delta_json ''Hel'')
      else if s = ''{\"choices\":[{\"delta\":{\"content\":\"lo\"}}]}'' then Inr (delta_json ''lo'')
      else if s = ''{\"choices\":[{\"delta\":{\"role\":\"assistant\"}}]}''
        then Inr (JObj [(''choices'',
               JArr [JObj [(''delta'', JObj [(''role'', JStr ''assistant'')])]])])
      else if s = ''{\"choices\":[{\"message\":{\"content\":\"Hello\"}}]}''
        then Inr (JObj [(''choices'',
               JArr [JObj [(''message'', JObj [(''content'', JStr ''Hello'')])]])])
      else if s = ''{\"error\":\"overloaded\"}'' then Inr (JObj [(''error'', JStr ''overloaded'')])
      else Inl JSONDecodeError)"

definition sample_runtime :: runtime where
  "sample_runtime =
     \<lparr>decode_utf8 = (\<lambda>b. if list_all (\<lambda>c. (of_char c :: nat) < 128) b then Inr b
                         else Inl UnicodeDecodeError),
      json_loads = sample_loads,
      str_exn = (\<lambda>e. case e of JSONDecodeError \<Rightarrow> ''Expecting value''
                              | RequestException \<Rightarrow> ''Connection refused''
                              | _ \<Rightarrow> ''error''),
      str_upper = ascii_upper, str_lower = ascii_lower\<rparr>"

text \<open>The default configuration of \<open>Config.__init__\<close>.\<close>

definition default_config :: stored_config where
  "default_config =
     \<lparr>default_model = ''openai'',
      models =
        [(''openai'', [(''api_key'', []), (''model'', ''gpt-3.5-turbo''),
                       (''api_base'', ''https://api.openai.com/v1/'')]),
         (''deepseek'', [(''api_key'', []), (''model'', ''deepseek-chat''),
                         (''api_base'', ''https://api.deepseek.com/v1/'')]),
         (''qwen'', [(''api_key'', []), (''model'', ''qwen-max''),
                     (''api_base'', ''https://dashscope.aliyuncs.com/api/v1/'')])],
      proxy = [(''enabled'', JBool False), (''http'', JStr []), (''https'', JStr [])],
      cfg_max_history = 10,
      stream_output = True\<rparr>"

text \<open>A configuration file with \<open>"models": {"openai": {}}\<close>.\<close>

definition empty_entry_config :: stored_config where
  "empty_entry_config = default_config\<lparr>models := [(''openai'', [])]\<rparr>"

text \<open>An environment where only \<open>OPENAI_API_KEY\<close> is set.\<close>

definition sample_env :: "string \<Rightarrow> string option" where
  "sample_env var = (if var = ''OPENAI_API_KEY'' then Some ''sk-env'' else None)"

text \<open>An OpenAI adapter, a response with status 200, three streamed lines, a history.\<close>

definition sample_adapter :: adapter where
  "sample_adapter = new_adapter OpenAIModel
     [(''api_key'', ''sk-1''), (''model'', ''gpt-3.5-turbo''),
      (''api_base'', ''https://api.openai.com/v1/'')]
     [(''enabled'', JBool False), (''http'', JStr []), (''https'', JStr [])]"

definition ok_response :: "string \<Rightarrow> string list \<Rightarrow> response" where
  "ok_response b ls = \<lparr>status_code = 200, body_text = b, body_lines = ls, body_error = None\<rparr>"

definition hel_line :: string where
  "hel_line = ''data: {\"choices\":[{\"delta\":{\"content\":\"Hel\"}}]}''"

definition lo_line :: string where
  "lo_line = ''data: {\"choices\":[{\"delta\":{\"content\":\"lo\"}}]}''"

definition role_line :: string where
  "role_line = ''data: {\"choices\":[{\"delta\":{\"role\":\"assistant\"}}]}''"

definition hi :: "message list" where
  "hi = [\<lparr>role = ''user'', content = ''Hi''\<rparr>]"

section \<open>The notions of the claims\<close>

text \<open>
  \<open>choices[0].delta.content\<close> of a JSON value, as a path: the value under \<open>content\<close> of
  the object under \<open>delta\<close> of the first element of the list under \<open>choices\<close>, where
  all of these are present.
\<close>

definition delta_content :: "json \<Rightarrow> json option" where
  "delta_content data =
     (case data of
        JObj kvs \<Rightarrow>
          (case map_of kvs ''choices'' of
             Some (JArr (JObj choice # others)) \<Rightarrow>
               (case map_of choice ''delta'' of
                  Some (JObj delta) \<Rightarrow> map_of delta ''content''
                | _ \<Rightarrow> None)
           | _ \<Rightarrow> None)
      | _ \<Rightarrow> None)"

text \<open>
  A payload that is not valid JSON, or whose JSON lacks \<open>choices[0].delta.content\<close> or
  has it empty (false as a truth value: \<open>""\<close>, \<open>null\<close>, \<open>0\<close>, \<open>false\<close>, \<open>[]\<close>, \<open>{}\<close>).
\<close>

definition no_fragment :: "runtime \<Rightarrow> string \<Rightarrow> bool" where
  "no_fragment rt payload =
     (case json_loads rt payload of
        Inl e \<Rightarrow> True
      | Inr data \<Rightarrow> (case delta_content data of None \<Rightarrow> True | Some c \<Rightarrow> \<not> truthy c))"

section \<open>Properties of the conversation manager\<close>

lemma set_slice_from: "set (slice_from i xs) \<subseteq> set xs"
  by (auto simp: slice_from_def dest: in_set_dropD)

lemma length_slice_from_neg:
  "i < 0 \<Longrightarrow> length (slice_from i xs) = min (length xs) (nat (- i))"
  by (auto simp: slice_from_def)

lemma hd_history: "messages s \<noteq> [] \<Longrightarrow> hd (history s) = heap s (hd (messages s))"
  by (simp add: history_def hd_map)

lemma history_Nil: "history s = [] \<longleftrightarrow> messages s = []"
  by (simp add: history_def)

lemma add_message_max_history [simp]: "max_history (add_message r c s) = max_history s"
  by (simp add: add_message_def Let_def)

lemma add_message_next_ref [simp]: "next_ref (add_message r c s) = Suc (next_ref s)"
  by (simp add: add_message_def Let_def)

lemma add_message_heap:
  "heap (add_message r c s) = (heap s)(next_ref s := \<lparr>role = r, content = c\<rparr>)"
  by (simp add: add_message_def Let_def)

lemma hd_snoc_in: "hd (xs @ [a]) \<in> insert a (set xs)"
  by (cases xs) auto

lemma add_message_messages_subset:
  "set (messages (add_message r c s)) \<subseteq> insert (next_ref s) (set (messages s))"
  using set_slice_from [of _ "messages s @ [next_ref s]"]
    hd_snoc_in [of "messages s" "next_ref s"]
  by (auto simp: add_message_def Let_def)

lemma add_message_allocated: "allocated s \<Longrightarrow> allocated (add_message r c s)"
  using add_message_messages_subset [of r c s]
  by (auto simp: allocated_def list_all_iff less_Suc_eq)

lemma add_messages_allocated: "allocated s \<Longrightarrow> allocated (add_messages calls s)"
  by (induction calls arbitrary: s) (auto simp: add_message_allocated)

text \<open>
  From \<open>max_history = 2\<close> on, one call of \<open>add_message\<close> establishes the bound, whatever
  the state before it.
\<close>

lemma add_message_bounded:
  assumes "2 \<le> max_history s"
  shows "int (length (messages (add_message r c s))) \<le> max_history s"
  using assms by (auto simp: add_message_def Let_def length_slice_from_neg)

lemma bounded_history_from_two:
  "2 \<le> max_history s \<Longrightarrow> calls \<noteq> [] \<Longrightarrow>
   int (length (history (add_messages calls s))) \<le> max_history s"
proof (induction calls arbitrary: s)
  case Nil
  then show ?case by simp
next
  case (Cons call calls)
  obtain r c where call: "call = (r, c)" by (cases call)
  show ?case
  proof (cases calls)
    case Nil
    with call Cons.prems show ?thesis
      by (simp add: history_def add_message_bounded)
  next
    case (Cons x xs)
    with call Cons.prems Cons.IH [of "add_message r c s"] show ?thesis by simp
  qed
qed

text \<open>
  C1 (bounded history). The claim includes \<open>max_history = 1\<close> with a system message at
  index 0. There \<open>self.messages[-(self.max_history-1):]\<close> is \<open>self.messages[-0:]\<close>, the
  whole list and not its last zero elements: a new conversation with \<open>max_history = 1\<close>
  holds three messages after \<open>add_message("system", "S")\<close> and
  \<open>add_message("user", "hi")\<close>, the system message twice.
\<close>

theorem bounded_history_broken_at_one:
  "max_history (add_messages [(''system'', ''S''), (''user'', ''hi'')] (init 1)) = 1 \<and>
   history (add_messages [(''system'', ''S''), (''user'', ''hi'')] (init 1)) =
     [\<lparr>role = ''system'', content = ''S''\<rparr>, \<lparr>role = ''system'', content = ''S''\<rparr>,
      \<lparr>role = ''user'', content = ''hi''\<rparr>]"
  by (simp add: history_def add_message_def init_def slice_from_def)

lemma add_message_keeps_head:
  assumes "allocated s" "messages s \<noteq> []" "role (heap s (hd (messages s))) = ''system''"
  shows "messages (add_message r c s) \<noteq> [] \<and>
         hd (messages (add_message r c s)) = hd (messages s) \<and>
         heap (add_message r c s) (hd (messages s)) = heap s (hd (messages s))"
proof -
  have "hd (messages s) < next_ref s"
    using assms(1,2) by (cases "messages s") (auto simp: allocated_def)
  then show ?thesis
    using assms(2,3) by (auto simp: add_message_def Let_def)
qed

text \<open>
  C4 (system pinning). If the first message of the history is a system message, then
  after any sequence of \<open>add_message\<close> calls the history still starts with that same
  message object, with its role and content unchanged. This holds for every
  \<open>max_history\<close>, in particular for every \<open>max_history \<ge> 1\<close>.
\<close>

theorem system_pinning:
  assumes "allocated s" and "history s \<noteq> []" and "role (hd (history s)) = ''system''"
  shows "history (add_messages calls s) \<noteq> [] \<and>
         hd (messages (add_messages calls s)) = hd (messages s) \<and>
         hd (history (add_messages calls s)) = hd (history s)"
  using assms
proof (induction calls arbitrary: s)
  case Nil
  then show ?case by (simp add: history_Nil)
next
  case (Cons call calls)
  obtain r c where call: "call = (r, c)" by (cases call)
  let ?t = "add_message r c s"
  have s: "messages s \<noteq> []" "role (heap s (hd (messages s))) = ''system''"
    using Cons.prems by (simp_all add: hd_history history_Nil)
  have step: "messages ?t \<noteq> []" "hd (messages ?t) = hd (messages s)"
    "heap ?t (hd (messages s)) = heap s (hd (messages s))"
    using add_message_keeps_head [OF Cons.prems(1) s] by simp_all
  have t: "allocated ?t" "history ?t \<noteq> []" "role (hd (history ?t)) = ''system''"
    using Cons.prems(1) step s by (simp_all add: add_message_allocated hd_history history_Nil)
  have "hd (history ?t) = hd (history s)"
    using step s by (simp add: hd_history)
  with Cons.IH [OF t] step call show ?case by simp
qed

theorem system_pinning_witness:
  "allocated pinned_session \<and> history pinned_session \<noteq> [] \<and>
   role (hd (history pinned_session)) = ''system'' \<and>
   length (history (add_messages [(''user'', ''a''), (''assistant'', ''b''), (''user'', ''c''),
       (''assistant'', ''d'')] pinned_session)) = 3 \<and>
   hd (history (add_messages [(''user'', ''a''), (''assistant'', ''b''), (''user'', ''c''),
       (''assistant'', ''d'')] pinned_session)) = \<lparr>role = ''system'', content = ''Be brief.''\<rparr>"
proof -
  have a: "allocated pinned_session"
    by (simp add: pinned_session_def allocated_def add_message_def init_def)
  have h: "history pinned_session = [\<lparr>role = ''system'', content = ''Be brief.''\<rparr>]"
    by (simp add: pinned_session_def history_def add_message_def init_def)
  have n: "length (history (add_messages [(''user'', ''a''), (''assistant'', ''b''),
       (''user'', ''c''), (''assistant'', ''d'')] pinned_session)) = 3"
    by (simp add: pinned_session_def history_def add_message_def init_def slice_from_def)
  show ?thesis
    using system_pinning [of pinned_session "[(''user'', ''a''), (''assistant'', ''b''),
      (''user'', ''c''), (''assistant'', ''d'')]"] a h n by simp
qed

text \<open>
  C10 (\<open>clear_history\<close>). After the call the history is the one-element list of the
  system message that stood at index 0, if there was one, and the empty list otherwise.
\<close>

theorem clear_history_result:
  "max_history (clear_history s) = max_history s \<and>
   (history s \<noteq> [] \<and> role (hd (history s)) = ''system''
      \<longrightarrow> history (clear_history s) = [hd (history s)]) \<and>
   (\<not> (history s \<noteq> [] \<and> role (hd (history s)) = ''system'')
      \<longrightarrow> history (clear_history s) = [])"
  by (auto simp: clear_history_def hd_history history_Nil) (simp_all add: history_def)

theorem clear_history_result_witness:
  "history pinned_session \<noteq> [] \<and> role (hd (history pinned_session)) = ''system'' \<and>
   history (clear_history (add_messages [(''user'', ''a''), (''assistant'', ''b'')] pinned_session)) =
     [\<lparr>role = ''system'', content = ''Be brief.''\<rparr>] \<and>
   \<not> (history two_turns \<noteq> [] \<and> role (hd (history two_turns)) = ''system'') \<and>
   history (clear_history two_turns) = []"
proof -
  let ?s = "add_messages [(''user'', ''a''), (''assistant'', ''b'')] pinned_session"
  have p: "history pinned_session = [\<lparr>role = ''system'', content = ''Be brief.''\<rparr>]"
    by (simp add: pinned_session_def history_def add_message_def init_def)
  have s: "history ?s = [\<lparr>role = ''system'', content = ''Be brief.''\<rparr>,
      \<lparr>role = ''user'', content = ''a''\<rparr>, \<lparr>role = ''assistant'', content = ''b''\<rparr>]"
    by (simp add: pinned_session_def history_def add_message_def init_def slice_from_def)
  have t: "history two_turns = [\<lparr>role = ''user'', content = ''a''\<rparr>,
      \<lparr>role = ''assistant'', content = ''b''\<rparr>]"
    by (simp add: two_turns_def history_def add_message_def init_def slice_from_def)
  show ?thesis
    using clear_history_result [of ?s] clear_history_result [of two_turns] p s t
    by simp
qed

text \<open>
  C2 (\<open>set_system_message\<close>), as the claim states it: after the insertion the bound
  would hold again. It does not: \<open>set_system_message\<close> never looks at \<open>max_history\<close>.
  A history of two messages under \<open>max_history = 2\<close>, without a system message, has
  three messages after the call.
\<close>

theorem set_system_message_exceeds_bound:
  "int (length (history two_turns)) \<le> max_history two_turns \<and>
   history (set_system_message ''S'' two_turns) =
     [\<lparr>role = ''system'', content = ''S''\<rparr>, \<lparr>role = ''user'', content = ''a''\<rparr>,
      \<lparr>role = ''assistant'', content = ''b''\<rparr>] \<and>
   max_history (set_system_message ''S'' two_turns) = 2 \<and>
   \<not> int (length (history (set_system_message ''S'' two_turns)))
       \<le> max_history (set_system_message ''S'' two_turns)"
  by (simp add: two_turns_def history_def set_system_message_def add_message_def init_def
      slice_from_def)

lemma map_upd_hd:
  assumes "ms \<noteq> []" "hd ms \<notin> set (tl ms)"
  shows "map (h(hd ms := v)) ms = v # map h (tl ms)"
proof (cases ms)
  case Nil with assms show ?thesis by simp
next
  case (Cons a as)
  with assms have "a \<notin> set as" by simp
  then have "map (h(a := v)) as = map h as" by (induction as) auto
  with Cons show ?thesis by simp
qed

lemma map_upd_fresh:
  assumes "\<forall>a \<in> set ms. a \<noteq> n"
  shows "map (h(n := v)) ms = map h ms"
  using assms by (induction ms) auto

text \<open>
  C2, amended. \<open>max_history\<close> is unchanged. If the history starts with a system message,
  and that message object stands at no other index, the list of message objects is the
  same and only the content of the first message changes. Otherwise a new system message
  is put in front of the unchanged history, which so grows by one message whatever the
  bound.
\<close>

theorem set_system_message_effect:
  "max_history (set_system_message c s) = max_history s \<and>
   (history s \<noteq> [] \<and> role (hd (history s)) = ''system'' \<and> hd (messages s) \<notin> set (tl (messages s))
      \<longrightarrow> messages (set_system_message c s) = messages s \<and>
          history (set_system_message c s) = (hd (history s))\<lparr>content := c\<rparr> # tl (history s)) \<and>
   (allocated s \<and> \<not> (history s \<noteq> [] \<and> role (hd (history s)) = ''system'')
      \<longrightarrow> history (set_system_message c s) = \<lparr>role = ''system'', content = c\<rparr> # history s)"
proof -
  have a: "max_history (set_system_message c s) = max_history s"
    by (simp add: set_system_message_def)
  have b: "messages (set_system_message c s) = messages s \<and>
      history (set_system_message c s) = (hd (history s))\<lparr>content := c\<rparr> # tl (history s)"
    if "history s \<noteq> []" "role (hd (history s)) = ''system''"
      "hd (messages s) \<notin> set (tl (messages s))"
  proof -
    have m: "messages s \<noteq> []" "role (heap s (hd (messages s))) = ''system''"
      using that by (simp_all add: hd_history history_Nil)
    then show ?thesis
      using map_upd_hd [OF m(1) that(3)]
      by (simp add: set_system_message_def history_def hd_map map_tl)
  qed
  have d: "history (set_system_message c s) = \<lparr>role = ''system'', content = c\<rparr> # history s"
    if "allocated s" "\<not> (history s \<noteq> [] \<and> role (hd (history s)) = ''system'')"
  proof -
    have m: "\<not> (messages s \<noteq> [] \<and> role (heap s (hd (messages s))) = ''system'')"
      using that(2) by (auto simp: hd_history history_Nil)
    have "\<forall>a \<in> set (messages s). a \<noteq> next_ref s"
      using that(1) by (auto simp: allocated_def list_all_iff)
    then show ?thesis
      using m map_upd_fresh [of "messages s" "next_ref s"]
      by (simp add: set_system_message_def history_def)
  qed
  from a b d show ?thesis by blast
qed

theorem set_system_message_effect_witness:
  "history pinned_session \<noteq> [] \<and> role (hd (history pinned_session)) = ''system'' \<and>
   hd (messages pinned_session) \<notin> set (tl (messages pinned_session)) \<and>
   history (set_system_message ''Be kind.'' pinned_session) =
     [\<lparr>role = ''system'', content = ''Be kind.''\<rparr>] \<and>
   allocated two_turns \<and>
   \<not> (history two_turns \<noteq> [] \<and> role (hd (history two_turns)) = ''system'') \<and>
   history (set_system_message ''S'' two_turns) =
     [\<lparr>role = ''system'', content = ''S''\<rparr>, \<lparr>role = ''user'', content = ''a''\<rparr>,
      \<lparr>role = ''assistant'', content = ''b''\<rparr>]"
proof -
  have p: "history pinned_session = [\<lparr>role = ''system'', content = ''Be brief.''\<rparr>]"
    "messages pinned_session = [0]"
    by (simp_all add: pinned_session_def history_def add_message_def init_def)
  have t: "history two_turns = [\<lparr>role = ''user'', content = ''a''\<rparr>,
      \<lparr>role = ''assistant'', content = ''b''\<rparr>]" "allocated two_turns"
    by (simp_all add: two_turns_def history_def add_message_def init_def slice_from_def
        allocated_def)
  show ?thesis
    using set_system_message_effect [of "''Be kind.''" pinned_session]
      set_system_message_effect [of "''S''" two_turns] p t
    by simp
qed

text \<open>
  The two side conditions above hold in every conversation built by the class.
  Every reference of the history is allocated, from \<open>__init__\<close> on. No message object
  stands at two indices as long as \<open>max_history\<close> is not 1; with \<open>max_history = 1\<close> the
  whole-list slice of \<open>add_message\<close> puts the system message into the history twice,
  and \<open>set_system_message\<close> then changes both entries.
\<close>

lemma init_allocated: "allocated (init mh)"
  by (simp add: allocated_def init_def)

lemma clear_history_allocated: "allocated s \<Longrightarrow> allocated (clear_history s)"
  by (cases "messages s") (auto simp: allocated_def clear_history_def)

lemma set_system_message_allocated: "allocated s \<Longrightarrow> allocated (set_system_message c s)"
  by (auto simp: allocated_def set_system_message_def list_all_iff less_Suc_eq)

lemma distinct_hd_drop:
  "distinct xs \<Longrightarrow> xs \<noteq> [] \<Longrightarrow> 0 < n \<Longrightarrow> distinct (hd xs # drop n xs)"
  by (cases xs; cases n) (auto dest: in_set_dropD)

lemma distinct_slice_from: "distinct xs \<Longrightarrow> distinct (slice_from i xs)"
  by (simp add: slice_from_def)

lemma distinct_pinned_slice:
  assumes "distinct xs" "xs \<noteq> []" "mh \<noteq> 1" "mh < int (length xs)"
  shows "distinct (hd xs # slice_from (- (mh - 1)) xs)"
proof (cases "mh \<le> 0")
  case True
  then have "slice_from (- (mh - 1)) xs = drop (nat (1 - mh)) xs"
    by (simp add: slice_from_def)
  moreover have "0 < nat (1 - mh)" using True by simp
  ultimately show ?thesis using distinct_hd_drop [OF assms(1,2)] by simp
next
  case False
  with assms(3) have "2 \<le> mh" by simp
  then have "slice_from (- (mh - 1)) xs = drop (nat (int (length xs) - (mh - 1))) xs"
    by (simp add: slice_from_def algebra_simps)
  moreover have "0 < nat (int (length xs) - (mh - 1))" using assms(4) by simp
  ultimately show ?thesis using distinct_hd_drop [OF assms(1,2)] by simp
qed

lemma add_message_distinct:
  assumes "allocated s" "distinct (messages s)" "max_history s \<noteq> 1"
  shows "distinct (messages (add_message r c s))"
proof -
  define ms where "ms = messages s @ [next_ref s]"
  have d: "distinct ms" "ms \<noteq> []"
    using assms(1,2) by (auto simp: ms_def allocated_def list_all_iff)
  have "messages (add_message r c s) = ms \<or>
      messages (add_message r c s) = hd ms # slice_from (- (max_history s - 1)) ms \<and>
        max_history s < int (length ms) \<or>
      messages (add_message r c s) = slice_from (- max_history s) ms"
    by (simp add: add_message_def Let_def ms_def)
  then show ?thesis
    using d distinct_slice_from [OF d(1)] distinct_pinned_slice [OF d assms(3)] by auto
qed

lemma clear_history_distinct: "distinct (messages (clear_history s))"
  by (simp add: clear_history_def)

lemma set_system_message_distinct:
  "allocated s \<Longrightarrow> distinct (messages s) \<Longrightarrow> distinct (messages (set_system_message c s))"
  by (auto simp: set_system_message_def allocated_def list_all_iff)

lemma distinct_not_aliased: "distinct (messages s) \<Longrightarrow> hd (messages s) \<notin> set (tl (messages s))"
  by (cases "messages s") auto

lemma set_system_message_aliased:
  "messages aliased_session = [0, 0, 1] \<and>
   history (set_system_message ''T'' aliased_session) =
     [\<lparr>role = ''system'', content = ''T''\<rparr>, \<lparr>role = ''system'', content = ''T''\<rparr>,
      \<lparr>role = ''user'', content = ''hi''\<rparr>]"
  by (simp add: aliased_session_def history_def set_system_message_def add_message_def init_def
      slice_from_def)

lemma add_message_last:
  assumes "1 \<le> max_history s"
  shows "messages (add_message r c s) \<noteq> [] \<and> last (messages (add_message r c s)) = next_ref s"
  using assms by (auto simp: add_message_def Let_def slice_from_def last_drop)

lemma add_message_last_history:
  assumes "1 \<le> max_history s"
  shows "history (add_message r c s) \<noteq> [] \<and>
         last (history (add_message r c s)) = \<lparr>role = r, content = c\<rparr>"
  using add_message_last [OF assms, of r c]
  by (simp add: history_def last_map add_message_heap)

text \<open>
  C9 (streaming and non-streaming turns). If the model's generator yields \<open>chunks\<close> and
  ends, and the model's non-streaming reply is the concatenation of \<open>chunks\<close>, then
  both modes leave the same conversation: the one that \<open>add_message\<close> of the user
  message followed by \<open>add_message\<close> of one assistant message with the concatenated
  text gives. Streaming mode writes the fragments and returns \<open>None\<close>, the other mode
  returns the text. For \<open>max_history \<ge> 1\<close> that assistant message is the last of the
  history.
\<close>

theorem streaming_equivalence:
  assumes "generate_stream m (history (add_message ''user'' msg s)) = Inr (chunks, None)"
    and "generate_text m (history (add_message ''user'' msg s)) = Inr (concat chunks)"
  shows "fst (send_message m msg True s) = fst (send_message m msg False s) \<and>
         fst (send_message m msg True s) =
           add_message ''assistant'' (concat chunks) (add_message ''user'' msg s) \<and>
         fst (snd (send_message m msg True s)) = chunks \<and>
         snd (snd (send_message m msg True s)) = Inr None \<and>
         snd (snd (send_message m msg False s)) = Inr (Some (concat chunks)) \<and>
         (1 \<le> max_history s \<longrightarrow>
            last (history (fst (send_message m msg True s))) =
              \<lparr>role = ''assistant'', content = concat chunks\<rparr>)"
  using assms add_message_last_history [of "add_message ''user'' msg s" "''assistant''" "concat chunks"]
  by (simp add: send_message_def Let_def)

theorem streaming_equivalence_witness:
  "history (fst (send_message hello_model ''Hi'' True (init 10))) =
     [\<lparr>role = ''user'', content = ''Hi''\<rparr>, \<lparr>role = ''assistant'', content = ''Hello''\<rparr>] \<and>
   fst (send_message hello_model ''Hi'' True (init 10)) =
     fst (send_message hello_model ''Hi'' False (init 10)) \<and>
   last (history (fst (send_message hello_model ''Hi'' True (init 10)))) =
     \<lparr>role = ''assistant'', content = ''Hello''\<rparr>"
proof -
  have g: "generate_stream hello_model (history (add_message ''user'' ''Hi'' (init 10))) =
      Inr ([''Hel'', ''lo''], None)"
    "generate_text hello_model (history (add_message ''user'' ''Hi'' (init 10))) =
      Inr (concat [''Hel'', ''lo''])"
    by (simp_all add: hello_model_def)
  note eq = streaming_equivalence [OF g]
  have t: "fst (send_message hello_model ''Hi'' True (init 10)) =
      add_message ''assistant'' ''Hello'' (add_message ''user'' ''Hi'' (init 10))"
    using conjunct1 [OF conjunct2 [OF eq]] by simp
  have f: "fst (send_message hello_model ''Hi'' False (init 10)) =
      add_message ''assistant'' ''Hello'' (add_message ''user'' ''Hi'' (init 10))"
    using conjunct1 [OF eq] t by (simp only:)
  have h: "history (add_message ''assistant'' ''Hello'' (add_message ''user'' ''Hi'' (init 10))) =
     [\<lparr>role = ''user'', content = ''Hi''\<rparr>, \<lparr>role = ''assistant'', content = ''Hello''\<rparr>]"
    by (simp add: history_def add_message_def init_def)
  show ?thesis
    unfolding t f h by simp
qed

section \<open>Properties of the adapters\<close>

text \<open>
  The streaming loop yields a value for a payload exactly when the payload is JSON with
  a true \<open>choices[0].delta.content\<close>; the value is that content.
\<close>

lemma openai_chunk_Some:
  "openai_chunk rt p = Inr (Some c) \<longleftrightarrow>
     (\<exists>data. json_loads rt p = Inr data \<and> delta_content data = Some c \<and> truthy c)"
proof (cases "json_loads rt p")
  case (Inl e)
  then show ?thesis by (simp add: openai_chunk_def)
next
  case (Inr data)
  show ?thesis
  proof (cases data)
    case (JObj kvs)
    show ?thesis
    proof (cases "map_of kvs ''choices''")
      case None
      with Inr JObj show ?thesis by (simp add: openai_chunk_def delta_content_def)
    next
      case (Some chs)
      show ?thesis
      proof (cases chs)
        case (JArr xs)
        show ?thesis
        proof (cases xs)
          case Nil
          with Inr JObj Some JArr show ?thesis
            by (simp add: openai_chunk_def delta_content_def)
        next
          case (Cons x xs')
          show ?thesis
          proof (cases x)
            case (JObj choice)
            show ?thesis
            proof (cases "map_of choice ''delta''")
              case None
              with Inr \<open>data = JObj kvs\<close> Some JArr Cons JObj show ?thesis
                by (simp add: openai_chunk_def delta_content_def)
            next
              case (Some d)
              with Inr \<open>data = JObj kvs\<close> \<open>map_of kvs ''choices'' = Some chs\<close> JArr Cons JObj
              show ?thesis
                by (cases d) (auto simp: openai_chunk_def delta_content_def split: option.splits)
            qed
          qed (use Inr \<open>data = JObj kvs\<close> Some JArr Cons in
                \<open>simp_all add: openai_chunk_def delta_content_def\<close>)
        qed
      next
        case (JStr str)
        with Inr JObj Some show ?thesis
          by (cases str) (simp_all add: openai_chunk_def delta_content_def)
      next
        case (JObj kvs')
        with Inr \<open>data = JObj kvs\<close> Some show ?thesis
          by (simp add: openai_chunk_def delta_content_def)
      qed (use Inr JObj Some in \<open>simp_all add: openai_chunk_def delta_content_def\<close>)
    qed
  next
    case (JArr xs)
    with Inr show ?thesis
      by (simp add: openai_chunk_def delta_content_def)
  next
    case (JStr str)
    with Inr show ?thesis
      by (simp add: openai_chunk_def delta_content_def)
  qed (use Inr in \<open>simp_all add: openai_chunk_def delta_content_def\<close>)
qed

lemma iterate_Break:
  "f line = Break \<Longrightarrow> iterate f (before @ line # after) err = iterate f before None"
  by (induction before) (auto split: step.splits)

lemma iterate_Continue:
  "f line = Continue \<Longrightarrow> iterate f (before @ line # after) err = iterate f (before @ after) err"
  by (induction before) (auto split: step.splits)

lemma openai_line_sentinel:
  assumes "line \<noteq> []" "decode_utf8 rt line = Inr text" "strip_data_prefix text = ''[DONE]''"
  shows "openai_line rt line = Break"
  using assms by (simp add: openai_line_def)

lemma openai_line_no_fragment:
  assumes "line \<noteq> []" "decode_utf8 rt line = Inr text" "strip_data_prefix text \<noteq> ''[DONE]''"
    and "no_fragment rt (strip_data_prefix text)"
  shows "openai_line rt line = Continue"
proof -
  have "openai_chunk rt (strip_data_prefix text) \<noteq> Inr (Some c)" for c
    using assms(4) unfolding openai_chunk_Some no_fragment_def
    by (auto split: sum.splits option.splits)
  then show ?thesis
    using assms(1-3) by (auto simp: openai_line_def split: sum.splits option.splits)
qed

lemma generate_openai_stream:
  assumes "family a \<in> {OpenAIModel, DeepSeekModel}" "status_code resp = 200"
  shows "generate rt (\<lambda>req. Inr resp) a msgs True =
         Inr (Generator (iterate (openai_line rt) (body_lines resp) (body_error resp)))"
  using assms by (auto simp: generate_def openai_generate_def openai_stream_generate_def)

lemma generate_openai_text:
  assumes "family a \<in> {OpenAIModel, DeepSeekModel}" "status_code resp = 200"
  shows "generate rt (\<lambda>req. Inr resp) a msgs False =
         Inr (Value (case openai_message_content rt resp of
                       Inl e \<Rightarrow> JStr (parse_failed @ str_exn rt e) | Inr v \<Rightarrow> v))"
  using assms
  by (auto simp: generate_def openai_generate_def openai_non_stream_generate_def
      split: sum.splits)

lemma sample_decode:
  "decode_utf8 sample_runtime hel_line = Inr hel_line"
  "decode_utf8 sample_runtime lo_line = Inr lo_line"
  "decode_utf8 sample_runtime role_line = Inr role_line"
  "decode_utf8 sample_runtime ''data: [DONE]'' = Inr ''data: [DONE]''"
  "decode_utf8 sample_runtime ''data: oops'' = Inr ''data: oops''"
  by (simp_all add: sample_runtime_def hel_line_def lo_line_def role_line_def)

lemma sample_lines:
  "openai_line sample_runtime hel_line = Yield (JStr ''Hel'')"
  "openai_line sample_runtime lo_line = Yield (JStr ''lo'')"
  by (simp_all add: openai_line_def sample_decode strip_data_prefix_def openai_chunk_def
      sample_runtime_def sample_loads_def delta_json_def hel_line_def lo_line_def)

lemma sample_adapter_family: "family sample_adapter = OpenAIModel"
  by (simp add: sample_adapter_def new_adapter_def)

lemma sample_loads_values:
  "json_loads sample_runtime ''oops'' = Inl JSONDecodeError"
  "json_loads sample_runtime ''<html>'' = Inl JSONDecodeError"
  "json_loads sample_runtime ''{\"error\":\"overloaded\"}'' =
     Inr (JObj [(''error'', JStr ''overloaded'')])"
  "json_loads sample_runtime (strip_data_prefix role_line) =
     Inr (JObj [(''choices'', JArr [JObj [(''delta'', JObj [(''role'', JStr ''assistant'')])]])])"
  by (simp_all add: sample_runtime_def sample_loads_def role_line_def strip_data_prefix_def)

text \<open>
  C7 (sentinel termination). For an adapter of the OpenAI family and a response with
  status 200: if a streamed line is not empty, decodes, and its payload after removing
  a leading \<open>data: \<close> is \<open>[DONE]\<close>, the generator is the one of the lines before it
  with a regular end of the body there. The sentinel line yields nothing, and neither
  the lines after it nor a failure of the connection after it are seen.
\<close>

theorem sentinel_termination:
  assumes "family a \<in> {OpenAIModel, DeepSeekModel}" and "status_code resp = 200"
    and "body_lines resp = before @ line # after"
    and "line \<noteq> []" and "decode_utf8 rt line = Inr text"
    and "strip_data_prefix text = ''[DONE]''"
  shows "generate rt (\<lambda>req. Inr resp) a msgs True =
         Inr (Generator (iterate (openai_line rt) before None))"
  using generate_openai_stream [OF assms(1,2)] assms(3)
    iterate_Break [of "openai_line rt" line before after "body_error resp"]
    openai_line_sentinel [OF assms(4-6)]
  by simp

theorem sentinel_termination_witness:
  "family sample_adapter \<in> {OpenAIModel, DeepSeekModel} \<and>
   decode_utf8 sample_runtime ''data: [DONE]'' = Inr ''data: [DONE]'' \<and>
   strip_data_prefix ''data: [DONE]'' = ''[DONE]'' \<and>
   generate sample_runtime
     (\<lambda>req. Inr (ok_response [] [hel_line, lo_line, ''data: [DONE]'', hel_line]))
     sample_adapter hi True = Inr (Generator ([JStr ''Hel'', JStr ''lo''], None))"
proof -
  let ?resp = "ok_response [] [hel_line, lo_line, ''data: [DONE]'', hel_line]"
  have f: "family sample_adapter \<in> {OpenAIModel, DeepSeekModel}"
    by (simp add: sample_adapter_family)
  have r: "status_code ?resp = 200"
    "body_lines ?resp = [hel_line, lo_line] @ ''data: [DONE]'' # [hel_line]"
    by (simp_all add: ok_response_def)
  have n: "''data: [DONE]'' \<noteq> []" by simp
  have p: "strip_data_prefix ''data: [DONE]'' = ''[DONE]''"
    by (simp add: strip_data_prefix_def)
  have i: "iterate (openai_line sample_runtime) [hel_line, lo_line] None =
      ([JStr ''Hel'', JStr ''lo''], None)"
    by (simp add: sample_lines)
  show ?thesis
    using sentinel_termination [OF f r n sample_decode(4) p, of hi] f sample_decode(4) p i
    by simp
qed

text \<open>
  C3 (\<open>generate\<close> never raises). In streaming mode a transport error is not turned
  into a fragment: \<open>generate\<close> returns a generator that yields nothing and raises the
  exception of \<open>requests.post\<close> in its consumer, for both families. The \<open>except\<close> clause
  of \<open>generate\<close> and its \<open>error_generator\<close> are never reached in streaming mode, since
  \<open>_stream_generate\<close> is a generator function and its body, \<open>requests.post\<close> included,
  runs after \<open>generate\<close> has returned.
\<close>

theorem streaming_transport_error_raises:
  "generate rt (\<lambda>req. Inl e) a msgs True = Inr (Generator ([], Some e))"
  by (cases "family a")
    (simp_all add: generate_def openai_generate_def openai_stream_generate_def
      qwen_generate_def qwen_stream_generate_def)

text \<open>
  The rest of the claim holds: without streaming \<open>generate\<close> always returns a value, a
  transport error gives the error text, and a status other than 200 gives the error
  text, as the single fragment of the generator in streaming mode.
\<close>

lemma non_streaming_never_raises:
  "\<exists>v. generate rt net a msgs False = Inr (Value v)"
  by (cases "family a")
    (auto simp: generate_def openai_generate_def qwen_generate_def Let_def split: sum.splits)

lemma non_streaming_transport_error:
  "generate rt (\<lambda>req. Inl e) a msgs False =
     Inr (Value (JStr ((if family a = QwenModel then qwen_name else ''OpenAI '')
        @ request_failed @ str_exn rt e)))"
  by (cases "family a")
    (simp_all add: generate_def openai_generate_def openai_non_stream_generate_def
      qwen_generate_def qwen_non_stream_generate_def)

lemma status_error_reply:
  assumes "status_code resp \<noteq> 200"
  shows "generate rt (\<lambda>req. Inr resp) a msgs False = Inr (Value (JStr (status_error_msg resp)))"
    and "generate rt (\<lambda>req. Inr resp) a msgs True =
         Inr (Generator ([JStr (status_error_msg resp)], None))"
  using assms by (cases "family a";
    simp add: generate_def openai_generate_def openai_non_stream_generate_def
      openai_stream_generate_def qwen_generate_def qwen_non_stream_generate_def
      qwen_stream_generate_def)+

text \<open>
  C8 (decode-error tolerance), as the claim states it for non-streaming mode: a body
  with status 200 that is not valid JSON would give empty content. It gives the text
  of the parse error instead.
\<close>

theorem invalid_body_gives_error_text:
  "json_loads sample_runtime ''<html>'' = Inl JSONDecodeError \<and>
   generate sample_runtime (\<lambda>req. Inr (ok_response ''<html>'' [])) sample_adapter hi False =
     Inr (Value (JStr (parse_failed @ ''Expecting value''))) \<and>
   parse_failed @ ''Expecting value'' \<noteq> []"
  by (simp add: sample_loads_values generate_def sample_adapter_family openai_generate_def
      openai_non_stream_generate_def ok_response_def openai_message_content_def)
    (simp add: sample_runtime_def parse_failed_def)

text \<open>
  In streaming mode \<open>line.decode('utf-8')\<close> stands before the \<open>try\<close> of
  \<open>OpenAIModel._stream_generate\<close>: a line that is not UTF-8 ends the generator with
  \<open>UnicodeDecodeError\<close> after the fragments before it. (\<open>QwenModel\<close> decodes inside the
  \<open>try\<close>.)
\<close>

lemma undecodable_line_aborts:
  "decode_utf8 sample_runtime [CHR 0xFF] = Inl UnicodeDecodeError \<and>
   generate sample_runtime (\<lambda>req. Inr (ok_response [] [hel_line, [CHR 0xFF], lo_line]))
     sample_adapter hi True = Inr (Generator ([JStr ''Hel''], Some UnicodeDecodeError))"
proof -
  have d: "decode_utf8 sample_runtime [CHR 0xFF] = Inl UnicodeDecodeError"
    by (simp add: sample_runtime_def)
  then have "openai_line sample_runtime [CHR 0xFF] = Raise UnicodeDecodeError"
    by (simp add: openai_line_def)
  then show ?thesis
    using d by (simp add: generate_def sample_adapter_family openai_generate_def
        openai_stream_generate_def ok_response_def sample_lines)
qed

text \<open>
  C8, amended. For an adapter of the OpenAI family and a response with status 200.
  Streaming: a line that is not empty, decodes, is not the sentinel, and whose payload is
  not valid JSON or lacks \<open>choices[0].delta.content\<close> or has it empty, yields nothing and
  does not end the generator: the generator is the one of the response without that
  line. Not streaming: a body that is not valid JSON gives the text of the parse error as
  the reply; a JSON object without \<open>choices\<close>, or with an empty list of \<open>choices\<close>, gives
  the empty string.
\<close>

theorem decode_error_tolerance:
  assumes "family a \<in> {OpenAIModel, DeepSeekModel}" and "status_code resp = 200"
  shows "(body_lines resp = before @ line # after \<and> line \<noteq> [] \<and>
          decode_utf8 rt line = Inr text \<and> strip_data_prefix text \<noteq> ''[DONE]'' \<and>
          no_fragment rt (strip_data_prefix text)
          \<longrightarrow> generate rt (\<lambda>req. Inr resp) a msgs True =
              Inr (Generator (iterate (openai_line rt) (before @ after) (body_error resp)))) \<and>
         (json_loads rt (body_text resp) = Inl e
          \<longrightarrow> generate rt (\<lambda>req. Inr resp) a msgs False =
              Inr (Value (JStr (parse_failed @ str_exn rt e)))) \<and>
         (json_loads rt (body_text resp) = Inr (JObj kvs) \<and>
          (map_of kvs ''choices'' = None \<or> map_of kvs ''choices'' = Some (JArr []))
          \<longrightarrow> generate rt (\<lambda>req. Inr resp) a msgs False = Inr (Value (JStr [])))"
proof -
  have 1: "generate rt (\<lambda>req. Inr resp) a msgs True =
      Inr (Generator (iterate (openai_line rt) (before @ after) (body_error resp)))"
    if "body_lines resp = before @ line # after" "line \<noteq> []"
      "decode_utf8 rt line = Inr text" "strip_data_prefix text \<noteq> ''[DONE]''"
      "no_fragment rt (strip_data_prefix text)"
    using generate_openai_stream [OF assms] that(1)
      iterate_Continue [of "openai_line rt" line before after "body_error resp"]
      openai_line_no_fragment [OF that(2-5)]
    by simp
  have 2: "generate rt (\<lambda>req. Inr resp) a msgs False =
      Inr (Value (JStr (parse_failed @ str_exn rt e)))"
    if "json_loads rt (body_text resp) = Inl e"
    using generate_openai_text [OF assms] that by (simp add: openai_message_content_def)
  have 3: "generate rt (\<lambda>req. Inr resp) a msgs False = Inr (Value (JStr []))"
    if "json_loads rt (body_text resp) = Inr (JObj kvs)"
      "map_of kvs ''choices'' = None \<or> map_of kvs ''choices'' = Some (JArr [])"
    using generate_openai_text [OF assms] that
    by (auto simp: openai_message_content_def)
  from 1 2 3 show ?thesis by blast
qed

theorem decode_error_tolerance_witness:
  "no_fragment sample_runtime (strip_data_prefix ''data: oops'') \<and>
   generate sample_runtime (\<lambda>req. Inr (ok_response [] [hel_line, ''data: oops'', lo_line]))
     sample_adapter hi True = Inr (Generator ([JStr ''Hel'', JStr ''lo''], None)) \<and>
   no_fragment sample_runtime (strip_data_prefix role_line) \<and>
   generate sample_runtime (\<lambda>req. Inr (ok_response [] [hel_line, role_line, lo_line]))
     sample_adapter hi True = Inr (Generator ([JStr ''Hel'', JStr ''lo''], None)) \<and>
   json_loads sample_runtime ''<html>'' = Inl JSONDecodeError \<and>
   generate sample_runtime (\<lambda>req. Inr (ok_response ''<html>'' [])) sample_adapter hi False =
     Inr (Value (JStr (parse_failed @ str_exn sample_runtime JSONDecodeError))) \<and>
   generate sample_runtime (\<lambda>req. Inr (ok_response ''{\"error\":\"overloaded\"}'' []))
     sample_adapter hi False = Inr (Value (JStr []))"
proof -
  have f: "family sample_adapter \<in> {OpenAIModel, DeepSeekModel}"
    by (simp add: sample_adapter_family)
  have ok: "status_code (ok_response b ls) = 200" "body_lines (ok_response b ls) = ls"
    "body_text (ok_response b ls) = b" "body_error (ok_response b ls) = None" for b ls
    by (simp_all add: ok_response_def)
  have p: "strip_data_prefix ''data: oops'' = ''oops''"
    "strip_data_prefix ''data: oops'' \<noteq> ''[DONE]''"
    "strip_data_prefix role_line \<noteq> ''[DONE]''"
    by (simp_all add: strip_data_prefix_def role_line_def)
  have n1: "no_fragment sample_runtime (strip_data_prefix ''data: oops'')"
    by (simp add: p no_fragment_def sample_loads_values)
  have n2: "no_fragment sample_runtime (strip_data_prefix role_line)"
    by (simp add: no_fragment_def sample_loads_values delta_content_def)
  have i: "iterate (openai_line sample_runtime) ([hel_line] @ [lo_line]) None =
      ([JStr ''Hel'', JStr ''lo''], None)"
    by (simp add: sample_lines)
  have r: "role_line \<noteq> []" by (simp add: role_line_def)
  have s1: "generate sample_runtime (\<lambda>req. Inr (ok_response [] [hel_line, ''data: oops'', lo_line]))
     sample_adapter hi True = Inr (Generator ([JStr ''Hel'', JStr ''lo''], None))"
    using decode_error_tolerance [OF f ok(1), of "[]" "[hel_line, ''data: oops'', lo_line]"
        "[hel_line]" "''data: oops''" "[lo_line]" sample_runtime "''data: oops''" hi]
      sample_decode(5) p n1 i by (simp add: ok)
  have s2: "generate sample_runtime (\<lambda>req. Inr (ok_response [] [hel_line, role_line, lo_line]))
     sample_adapter hi True = Inr (Generator ([JStr ''Hel'', JStr ''lo''], None))"
    using decode_error_tolerance [OF f ok(1), of "[]" "[hel_line, role_line, lo_line]"
        "[hel_line]" role_line "[lo_line]" sample_runtime role_line hi]
      sample_decode(3) p n2 i r by (simp add: ok)
  have s3: "generate sample_runtime (\<lambda>req. Inr (ok_response ''<html>'' [])) sample_adapter hi False =
     Inr (Value (JStr (parse_failed @ str_exn sample_runtime JSONDecodeError)))"
    using decode_error_tolerance [OF f ok(1), of "''<html>''" "[]" _ _ _ sample_runtime _ hi
        JSONDecodeError]
      sample_loads_values(2) by (simp add: ok)
  have s4: "generate sample_runtime (\<lambda>req. Inr (ok_response ''{\"error\":\"overloaded\"}'' []))
     sample_adapter hi False = Inr (Value (JStr []))"
    using decode_error_tolerance [OF f ok(1), of "''{\"error\":\"overloaded\"}''" "[]" _ _ _
        sample_runtime _ hi _ "[(''error'', JStr ''overloaded'')]"]
      sample_loads_values(3) by (simp add: ok)
  from n1 s1 n2 s2 sample_loads_values(2) s3 s4 show ?thesis by simp
qed

section \<open>Properties of the adapter factory\<close>

lemma dict_get_update:
  "dict_get (AList.update k v al) k' d = (if k' = k then v else dict_get al k' d)"
  by (simp add: dict_get_def update_conv')

lemma dispatch_Some:
  "dispatch rt name mc pc \<noteq> None \<longleftrightarrow> str_lower rt name \<in> {''openai'', ''deepseek'', ''qwen''}"
  by (simp add: dispatch_def)

lemma dispatch_Some_ex:
  "(\<exists>a. dispatch rt name mc pc = Some a) \<longleftrightarrow>
     str_lower rt name \<in> {''openai'', ''deepseek'', ''qwen''}"
  using dispatch_Some [of rt name mc pc] by auto

lemma dispatch_api_key:
  "dispatch rt name mc pc = Some a \<Longrightarrow> api_key a = dict_get mc ''api_key'' [] \<and> config a = mc
     \<and> proxy_config a = pc"
  by (auto simp: dispatch_def new_adapter_def split: if_splits)

lemma get_model_config_nonempty:
  "get_model_config name cfg \<noteq> [] \<longleftrightarrow> (\<exists>e. map_of (models cfg) name = Some e \<and> e \<noteq> [])"
  by (auto simp: get_model_config_def dict_get_def split: option.splits)

lemma sample_names:
  "str_upper sample_runtime ''openai'' = ''OPENAI''"
  "str_lower sample_runtime ''openai'' = ''openai''"
  "str_upper sample_runtime ''deepseek'' = ''DEEPSEEK''"
  "str_lower sample_runtime ''deepseek'' = ''deepseek''"
  by (simp_all add: sample_runtime_def ascii_upper_def ascii_lower_def)

lemma default_openai_entry:
  "get_model_config ''openai'' default_config =
     [(''api_key'', []), (''model'', ''gpt-3.5-turbo''),
      (''api_base'', ''https://api.openai.com/v1/'')]"
  by (simp add: get_model_config_def dict_get_def default_config_def)

text \<open>
  C6 (factory resolution), as the claim states it: an adapter is returned whenever the
  entry exists, a key is available and the name is known. With the entry
  \<open>"openai": {}\<close> and \<open>OPENAI_API_KEY\<close> set, the entry exists and the key is available,
  but \<open>if not model_config\<close> takes the empty dict for a missing one and \<open>None\<close> is
  returned.
\<close>

theorem empty_entry_is_absent:
  "map_of (models empty_entry_config) ''openai'' = Some [] \<and>
   sample_env (str_upper sample_runtime ''openai'' @ ''_API_KEY'') = Some ''sk-env'' \<and>
   str_lower sample_runtime ''openai'' = ''openai'' \<and>
   snd (get_model_instance sample_runtime sample_env ''openai'' empty_entry_config) = None"
  by (simp add: sample_names sample_env_def empty_entry_config_def get_model_instance_def
      get_model_config_def dict_get_def)

text \<open>
  C6, amended. \<open>get_model_instance\<close> returns an adapter if and only if the named entry
  exists and is not empty, a key is available (a stored key that is not empty or, when
  the stored key is empty or missing, a non-empty value of the environment variable
  \<open>name.upper() + "_API_KEY"\<close>), and \<open>name.lower()\<close> is one of \<open>openai\<close>, \<open>deepseek\<close>,
  \<open>qwen\<close>. The adapter has the stored key, or else the key of the environment, and the
  class of that name. In every other case the result is \<open>None\<close>; no step of the function
  raises on a configuration of this type.
\<close>

theorem factory_resolution:
  "(snd (get_model_instance rt env name cfg) \<noteq> None \<longleftrightarrow>
      (\<exists>e. map_of (models cfg) name = Some e \<and> e \<noteq> []) \<and>
      (dict_get (get_model_config name cfg) ''api_key'' [] \<noteq> [] \<or>
       (\<exists>k. env (str_upper rt name @ ''_API_KEY'') = Some k \<and> k \<noteq> [])) \<and>
      str_lower rt name \<in> {''openai'', ''deepseek'', ''qwen''}) \<and>
   (\<forall>a. snd (get_model_instance rt env name cfg) = Some a \<longrightarrow>
      api_key a =
        (if dict_get (get_model_config name cfg) ''api_key'' [] \<noteq> []
         then dict_get (get_model_config name cfg) ''api_key'' []
         else the (env (str_upper rt name @ ''_API_KEY''))) \<and>
      (family a = OpenAIModel \<longleftrightarrow> str_lower rt name = ''openai'') \<and>
      (family a = DeepSeekModel \<longleftrightarrow> str_lower rt name = ''deepseek'') \<and>
      (family a = QwenModel \<longleftrightarrow> str_lower rt name = ''qwen''))"
proof -
  have 1: "snd (get_model_instance rt env name cfg) \<noteq> None \<longleftrightarrow>
      (\<exists>e. map_of (models cfg) name = Some e \<and> e \<noteq> []) \<and>
      (dict_get (get_model_config name cfg) ''api_key'' [] \<noteq> [] \<or>
       (\<exists>k. env (str_upper rt name @ ''_API_KEY'') = Some k \<and> k \<noteq> [])) \<and>
      str_lower rt name \<in> {''openai'', ''deepseek'', ''qwen''}"
    unfolding get_model_config_nonempty [symmetric]
    by (simp add: get_model_instance_def Let_def dispatch_Some_ex split: option.splits)
  have 2: "api_key a =
        (if dict_get (get_model_config name cfg) ''api_key'' [] \<noteq> []
         then dict_get (get_model_config name cfg) ''api_key'' []
         else the (env (str_upper rt name @ ''_API_KEY'')))"
    if "snd (get_model_instance rt env name cfg) = Some a" for a
    using that
    by (auto simp: get_model_instance_def Let_def dict_get_update
        split: option.splits if_splits dest!: dispatch_api_key)
  have 3: "(family a = OpenAIModel \<longleftrightarrow> str_lower rt name = ''openai'') \<and>
      (family a = DeepSeekModel \<longleftrightarrow> str_lower rt name = ''deepseek'') \<and>
      (family a = QwenModel \<longleftrightarrow> str_lower rt name = ''qwen'')"
    if "snd (get_model_instance rt env name cfg) = Some a" for a
    using that
    by (auto simp: get_model_instance_def Let_def dispatch_def new_adapter_def
        split: option.splits if_splits)
  from 1 2 3 show ?thesis by blast
qed

theorem factory_resolution_witness:
  "(\<exists>e. map_of (models default_config) ''openai'' = Some e \<and> e \<noteq> []) \<and>
   dict_get (get_model_config ''openai'' default_config) ''api_key'' [] = [] \<and>
   sample_env (str_upper sample_runtime ''openai'' @ ''_API_KEY'') = Some ''sk-env'' \<and>
   str_lower sample_runtime ''openai'' \<in> {''openai'', ''deepseek'', ''qwen''} \<and>
   (\<exists>a. snd (get_model_instance sample_runtime sample_env ''openai'' default_config) = Some a \<and>
        api_key a = ''sk-env'' \<and> family a = OpenAIModel) \<and>
   sample_env (str_upper sample_runtime ''deepseek'' @ ''_API_KEY'') = None \<and>
   snd (get_model_instance sample_runtime sample_env ''deepseek'' default_config) = None"
proof -
  note fr = factory_resolution [where cfg = default_config and rt = sample_runtime
    and env = sample_env]
  have e: "\<exists>e. map_of (models default_config) ''openai'' = Some e \<and> e \<noteq> []"
    by (simp add: default_config_def)
  have k: "dict_get (get_model_config ''openai'' default_config) ''api_key'' [] = []"
    by (simp add: default_openai_entry dict_get_def)
  have v: "sample_env (str_upper sample_runtime ''openai'' @ ''_API_KEY'') = Some ''sk-env''"
    by (simp add: sample_names sample_env_def)
  have l: "str_lower sample_runtime ''openai'' \<in> {''openai'', ''deepseek'', ''qwen''}"
    by (simp add: sample_names)
  have "snd (get_model_instance sample_runtime sample_env ''openai'' default_config) \<noteq> None"
    using fr [where name = "''openai''"] e v l by blast
  then obtain a where
    a: "snd (get_model_instance sample_runtime sample_env ''openai'' default_config) = Some a"
    by blast
  have a': "api_key a = ''sk-env'' \<and> family a = OpenAIModel"
    using fr [where name = "''openai''"] a k v by (simp add: sample_names)
  have dk: "dict_get (get_model_config ''deepseek'' default_config) ''api_key'' [] = []"
    by (simp add: get_model_config_def dict_get_def default_config_def)
  have dv: "sample_env (str_upper sample_runtime ''deepseek'' @ ''_API_KEY'') = None"
    by (simp add: sample_names sample_env_def)
  have d: "snd (get_model_instance sample_runtime sample_env ''deepseek'' default_config) = None"
    using fr [where name = "''deepseek''"] dk dv by simp
  from e k v l a a' dv d show ?thesis by blast
qed

text \<open>
  C5 (no side effect on the stored configuration), as the claim states it: the entry
  would hold the same \<open>api_key\<close> after the call. With the default configuration and
  \<open>OPENAI_API_KEY\<close> set, the stored \<open>openai\<close> entry has the key of the environment after
  the call.
\<close>

theorem key_fallback_writes_config:
  "dict_get (get_model_config ''openai'' default_config) ''api_key'' [] = [] \<and>
   dict_get (get_model_config ''openai''
      (fst (get_model_instance sample_runtime sample_env ''openai'' default_config)))
     ''api_key'' [] = ''sk-env'' \<and>
   fst (get_model_instance sample_runtime sample_env ''openai'' default_config) \<noteq> default_config"
proof -
  have k: "dict_get (get_model_config ''openai'' default_config) ''api_key'' [] = []"
    by (simp add: default_openai_entry dict_get_def)
  have m: "models (fst (get_model_instance sample_runtime sample_env ''openai'' default_config)) =
      AList.update ''openai'' (AList.update ''api_key'' ''sk-env''
        (get_model_config ''openai'' default_config)) (models default_config)"
    using k by (simp add: get_model_instance_def Let_def default_openai_entry sample_names
        sample_env_def)
  have g: "dict_get (get_model_config ''openai''
      (fst (get_model_instance sample_runtime sample_env ''openai'' default_config)))
     ''api_key'' [] = ''sk-env''"
    by (simp add: get_model_config_def m dict_get_update)
  from k g show ?thesis by auto
qed

text \<open>
  C5, amended. The stored configuration is unchanged when the entry is missing or
  empty, when its stored key is not empty, or when the environment variable is unset or
  empty. When the key of the environment is used, the call stores it as \<open>api_key\<close> of
  the named entry, whatever it returns; the other fields of that entry, the other
  entries and the rest of the configuration are unchanged.
\<close>

theorem resolution_frame:
  "(get_model_config name cfg = [] \<or>
    dict_get (get_model_config name cfg) ''api_key'' [] \<noteq> [] \<or>
    env (str_upper rt name @ ''_API_KEY'') = None \<or>
    env (str_upper rt name @ ''_API_KEY'') = Some []
      \<longrightarrow> fst (get_model_instance rt env name cfg) = cfg) \<and>
   (get_model_config name cfg \<noteq> [] \<and>
    dict_get (get_model_config name cfg) ''api_key'' [] = [] \<and>
    env (str_upper rt name @ ''_API_KEY'') = Some k \<and> k \<noteq> []
      \<longrightarrow> fst (get_model_instance rt env name cfg) =
            cfg\<lparr>models := AList.update name
              (AList.update ''api_key'' k (get_model_config name cfg)) (models cfg)\<rparr> \<and>
          dict_get (get_model_config name (fst (get_model_instance rt env name cfg)))
            ''api_key'' [] = k \<and>
          (\<forall>field. field \<noteq> ''api_key'' \<longrightarrow>
             map_of (get_model_config name (fst (get_model_instance rt env name cfg))) field =
             map_of (get_model_config name cfg) field) \<and>
          (\<forall>other. other \<noteq> name \<longrightarrow>
             get_model_config other (fst (get_model_instance rt env name cfg)) =
             get_model_config other cfg))"
proof -
  have 1: "fst (get_model_instance rt env name cfg) = cfg"
    if "get_model_config name cfg = [] \<or>
      dict_get (get_model_config name cfg) ''api_key'' [] \<noteq> [] \<or>
      env (str_upper rt name @ ''_API_KEY'') = None \<or>
      env (str_upper rt name @ ''_API_KEY'') = Some []"
    using that by (auto simp: get_model_instance_def Let_def split: option.splits)
  let ?cfg' = "cfg\<lparr>models := AList.update name
      (AList.update ''api_key'' k (get_model_config name cfg)) (models cfg)\<rparr>"
  have 2: "fst (get_model_instance rt env name cfg) = ?cfg'"
    if "get_model_config name cfg \<noteq> []"
      "dict_get (get_model_config name cfg) ''api_key'' [] = []"
      "env (str_upper rt name @ ''_API_KEY'') = Some k" "k \<noteq> []"
    using that by (simp add: get_model_instance_def Let_def)
  have 3: "get_model_config name ?cfg' = AList.update ''api_key'' k (get_model_config name cfg)"
    by (simp add: get_model_config_def dict_get_update)
  have 4: "get_model_config other ?cfg' = get_model_config other cfg" if "other \<noteq> name" for other
    using that by (simp add: get_model_config_def dict_get_update)
  have 5: "map_of (AList.update ''api_key'' k (get_model_config name cfg)) field =
      map_of (get_model_config name cfg) field" if "field \<noteq> ''api_key''" for field
    using that by (simp add: update_conv')
  have 6: "dict_get (AList.update ''api_key'' k (get_model_config name cfg)) ''api_key'' [] = k"
    by (simp add: dict_get_update)
  show ?thesis
    using 1 2 3 4 5 6 by (auto simp del: fun_upd_apply)
qed

theorem resolution_frame_witness:
  "dict_get (get_model_config ''openai'' default_config) ''api_key'' [] = [] \<and>
   sample_env (str_upper sample_runtime ''openai'' @ ''_API_KEY'') = Some ''sk-env'' \<and>
   get_model_config ''openai''
     (fst (get_model_instance sample_runtime sample_env ''openai'' default_config)) =
     [(''api_key'', ''sk-env''), (''model'', ''gpt-3.5-turbo''),
      (''api_base'', ''https://api.openai.com/v1/'')] \<and>
   get_model_config ''qwen''
     (fst (get_model_instance sample_runtime sample_env ''openai'' default_config)) =
     get_model_config ''qwen'' default_config \<and>
   sample_env (str_upper sample_runtime ''deepseek'' @ ''_API_KEY'') = None \<and>
   fst (get_model_instance sample_runtime sample_env ''deepseek'' default_config) = default_config"
proof -
  note rf = resolution_frame [where cfg = default_config and rt = sample_runtime
    and env = sample_env]
  have k: "dict_get (get_model_config ''openai'' default_config) ''api_key'' [] = []"
    by (simp add: default_openai_entry dict_get_def)
  have v: "sample_env (str_upper sample_runtime ''openai'' @ ''_API_KEY'') = Some ''sk-env''"
    by (simp add: sample_names sample_env_def)
  have n: "get_model_config ''openai'' default_config \<noteq> []"
    by (simp add: default_openai_entry)
  have f: "fst (get_model_instance sample_runtime sample_env ''openai'' default_config) =
      default_config\<lparr>models := AList.update ''openai''
        (AList.update ''api_key'' ''sk-env'' (get_model_config ''openai'' default_config))
        (models default_config)\<rparr>"
    using rf [where name = "''openai''" and k = "''sk-env''"] k v n by simp
  have o: "get_model_config ''openai''
     (fst (get_model_instance sample_runtime sample_env ''openai'' default_config)) =
     [(''api_key'', ''sk-env''), (''model'', ''gpt-3.5-turbo''),
      (''api_base'', ''https://api.openai.com/v1/'')]"
    unfolding f by (simp add: get_model_config_def dict_get_update default_config_def dict_get_def)
  have "\<forall>other. other \<noteq> ''openai'' \<longrightarrow>
      get_model_config other
        (fst (get_model_instance sample_runtime sample_env ''openai'' default_config)) =
      get_model_config other default_config"
    using rf [where name = "''openai''" and k = "''sk-env''"] k v n by blast
  then have q: "get_model_config ''qwen''
     (fst (get_model_instance sample_runtime sample_env ''openai'' default_config)) =
     get_model_config ''qwen'' default_config"
    by simp
  have dv: "sample_env (str_upper sample_runtime ''deepseek'' @ ''_API_KEY'') = None"
    by (simp add: sample_names sample_env_def)
  have d: "fst (get_model_instance sample_runtime sample_env ''deepseek'' default_config) =
      default_config"
    using rf [where name = "''deepseek''"] dv by simp
  from k v o q dv d show ?thesis by simp
qed

end
